theory Spec2Isabelle
  imports Complex_Main
begin

section \<open>Data model of \<open>src/index.tsx\<close>\<close>

text \<open>
  JavaScript numbers are modelled as \<^typ>\<open>real\<close>: the arithmetic of the source is
  taken exactly, without the rounding of IEEE doubles and without NaN or the infinities.
  A three.js \<open>Vector3\<close> and a JSX array \<open>[x, y, z]\<close> are triples.
\<close>

type_synonym Vector3 = "real \<times> real \<times> real"

text \<open>
  The part of a three.js \<open>Object3D\<close> (\<open>Mesh\<close>, \<open>Group\<close>) that the source reads or
  writes: the position, the Euler rotation and the scale.
\<close>

record Object3D =
  position :: Vector3
  rotation_x :: real
  rotation_y :: real
  rotation_z :: real
  scale :: Vector3

text \<open>A freshly created three.js object: at the origin, not rotated, scale one.\<close>

definition new_Object3D :: Object3D where
  "new_Object3D =
     \<lparr>position = (0, 0, 0), rotation_x = 0, rotation_y = 0, rotation_z = 0,
      scale = (1, 1, 1)\<rparr>"

text \<open>\<open>v.setScalar(s)\<close> of three.js sets all three components to \<open>s\<close>.\<close>

definition setScalar :: "real \<Rightarrow> Vector3" where
  "setScalar s = (s, s, s)"

text \<open>
  A React ref is \<open>null\<close> until the object is mounted: \<open>ref.current\<close> is an option,
  and \<open>if (ref.current) { ... }\<close> updates the object when there is one.
\<close>

definition if_current :: "'a option \<Rightarrow> ('a \<Rightarrow> 'a) \<Rightarrow> 'a option" where
  "if_current ref body = (case ref of None \<Rightarrow> None | Some obj \<Rightarrow> Some (body obj))"

text \<open>
  The source has no \<open>throw\<close>; the result type of a construction is a sum all the same,
  so that a statement can say whether it fails.
\<close>

datatype error = GeometryBuildError | ConfigurationError

section \<open>\<open>Ribbon\<close>: the curve wrapped around a cone\<close>

text \<open>
  Modelled from the spec: \<open>THREE.MathUtils.lerp\<close> belongs to three.js and is not under
  \<open>src/\<close>; the spec calls it the linear interpolation between its first two arguments,
  which three.js computes as \<open>(1 - t) * x + t * y\<close>.
\<close>

definition lerp :: "real \<Rightarrow> real \<Rightarrow> real \<Rightarrow> real" where
  "lerp x y t = (1 - t) * x + t * y"

definition steps :: nat where
  "steps = 100"

definition rOffset :: real where
  "rOffset = 0.2"

text \<open>The body of the loop of \<open>Ribbon\<close>'s \<open>useMemo\<close>, one local constant at a time.\<close>

definition Ribbon_t :: "nat \<Rightarrow> real" where
  "Ribbon_t i = real i / real steps"

definition Ribbon_r :: "real \<Rightarrow> real \<Rightarrow> nat \<Rightarrow> real" where
  "Ribbon_r radiusBottom radiusTop i =
     lerp (radiusBottom + rOffset) (radiusTop + rOffset) (Ribbon_t i)"

definition Ribbon_theta :: "real \<Rightarrow> nat \<Rightarrow> real" where
  "Ribbon_theta turns i = Ribbon_t i * pi * 2 * turns"

definition Ribbon_y :: "real \<Rightarrow> nat \<Rightarrow> real" where
  "Ribbon_y height i = (Ribbon_t i - 0.5) * height"

definition Ribbon_point :: "real \<Rightarrow> real \<Rightarrow> real \<Rightarrow> real \<Rightarrow> nat \<Rightarrow> Vector3" where
  "Ribbon_point radiusBottom radiusTop height turns i =
     (let r = Ribbon_r radiusBottom radiusTop i;
          theta = Ribbon_theta turns i;
          y = Ribbon_y height i;
          x = cos theta * r;
          z = sin theta * r
      in (x, y, z))"

text \<open>\<open>for (let i = 0; i <= steps; i++) { ...; points.push(...) }\<close>\<close>

function Ribbon_loop ::
  "real \<Rightarrow> real \<Rightarrow> real \<Rightarrow> real \<Rightarrow> nat \<Rightarrow> Vector3 list \<Rightarrow> Vector3 list" where
  "Ribbon_loop radiusBottom radiusTop height turns i points =
     (if i \<le> steps
      then Ribbon_loop radiusBottom radiusTop height turns (Suc i)
             (points @ [Ribbon_point radiusBottom radiusTop height turns i])
      else points)"
  by pat_completeness auto
termination
  by (relation "measure (\<lambda>(rb, rt, h, tu, i, ps). Suc steps - i)") auto

datatype Curve = CatmullRomCurve3 "Vector3 list"

fun curve_points :: "Curve \<Rightarrow> Vector3 list" where
  "curve_points (CatmullRomCurve3 ps) = ps"

text \<open>
  The \<open>useMemo\<close> of \<open>Ribbon\<close>. It checks none of its arguments and always returns the
  curve through the points of the loop.
\<close>

definition Ribbon_curve :: "real \<Rightarrow> real \<Rightarrow> real \<Rightarrow> real \<Rightarrow> error + Curve" where
  "Ribbon_curve radiusBottom radiusTop height turns =
     Inr (CatmullRomCurve3 (Ribbon_loop radiusBottom radiusTop height turns 0 []))"

text \<open>\<open>meshRef.current.rotation.y = -state.clock.getElapsedTime() * 0.15\<close>\<close>

definition Ribbon_useFrame :: "real \<Rightarrow> Object3D option \<Rightarrow> Object3D option" where
  "Ribbon_useFrame elapsedTime meshRef =
     if_current meshRef (\<lambda>m. m\<lparr>rotation_y := - elapsedTime * 0.15\<rparr>)"

section \<open>\<open>Ornament\<close>\<close>

text \<open>The callback ignores the frame's state and delta.\<close>

definition Ornament_useFrame :: "Object3D option \<Rightarrow> Object3D option" where
  "Ornament_useFrame meshRef =
     if_current meshRef
       (\<lambda>m. m\<lparr>rotation_y := rotation_y m + 0.01, rotation_z := rotation_z m + 0.005\<rparr>)"

section \<open>\<open>TreeLayer\<close>\<close>

definition TreeLayer_dir :: "int \<Rightarrow> real" where
  "TreeLayer_dir layerIndex = (if layerIndex mod 2 = 0 then 1 else - 1)"

definition TreeLayer_useFrame ::
  "int \<Rightarrow> real \<Rightarrow> real \<Rightarrow> Object3D option \<Rightarrow> Object3D option" where
  "TreeLayer_useFrame layerIndex rotationSpeed delta groupRef =
     if_current groupRef
       (\<lambda>g. g\<lparr>rotation_y :=
                 rotation_y g + delta * rotationSpeed * TreeLayer_dir layerIndex * 0.5\<rparr>)"

text \<open>The props of one \<open><Ornament key position scale />\<close> element.\<close>

record Ornament_props =
  key :: nat
  position_prop :: Vector3
  scale_prop :: real

definition TreeLayer_count :: "int \<Rightarrow> int" where
  "TreeLayer_count layerIndex = 6 + layerIndex * 2"

definition radius :: real where
  "radius = 1.3"

definition TreeLayer_angle :: "int \<Rightarrow> nat \<Rightarrow> real" where
  "TreeLayer_angle layerIndex i = (real i / real_of_int (TreeLayer_count layerIndex)) * pi * 2"

definition TreeLayer_position :: "int \<Rightarrow> nat \<Rightarrow> Vector3" where
  "TreeLayer_position layerIndex i =
     (let angle = TreeLayer_angle layerIndex i;
          x = cos angle * radius;
          z = sin angle * radius;
          y = - 0.8 + sin (angle * 3) * 0.2
      in (x, y, z))"

text \<open>
  \<open>Math.random()\<close> has no seed and no argument. Its results are an input of the model:
  \<open>random i\<close> is what the call made in iteration \<open>i\<close> of the loop returns.
\<close>

definition TreeLayer_item :: "int \<Rightarrow> (nat \<Rightarrow> real) \<Rightarrow> nat \<Rightarrow> Ornament_props" where
  "TreeLayer_item layerIndex random i =
     \<lparr>key = i, position_prop = TreeLayer_position layerIndex i,
      scale_prop = 0.6 + random i * 0.4\<rparr>"

text \<open>\<open>for (let i = 0; i < count; i++) { ...; items.push(...) }\<close>\<close>

function TreeLayer_loop ::
  "int \<Rightarrow> (nat \<Rightarrow> real) \<Rightarrow> nat \<Rightarrow> Ornament_props list \<Rightarrow> Ornament_props list" where
  "TreeLayer_loop layerIndex random i items =
     (if int i < TreeLayer_count layerIndex
      then TreeLayer_loop layerIndex random (Suc i)
             (items @ [TreeLayer_item layerIndex random i])
      else items)"
  by pat_completeness auto
termination
  by (relation "measure (\<lambda>(l, rnd, i, its). nat (TreeLayer_count l - int i))") auto

definition TreeLayer_ornaments :: "int \<Rightarrow> (nat \<Rightarrow> real) \<Rightarrow> Ornament_props list" where
  "TreeLayer_ornaments layerIndex random = TreeLayer_loop layerIndex random 0 []"

section \<open>\<open>StarTopper\<close>\<close>

definition StarTopper_useFrame :: "real \<Rightarrow> Object3D option \<Rightarrow> Object3D option" where
  "StarTopper_useFrame t ref =
     if_current ref
       (\<lambda>g. g\<lparr>rotation_y := t * 0.5, scale := setScalar (1 + sin (t * 2) * 0.1)\<rparr>)"

section \<open>The scene and one frame of it\<close>

text \<open>
  What the frame callbacks of one mounted \<open>TreeLayer\<close> work on: its two props, its
  group, the mesh of its \<open>Ribbon\<close> and the meshes of its \<open>Ornament\<close>s.
\<close>

record TreeLayer_node =
  layerIndex :: int
  rotationSpeed :: real
  groupRef :: "Object3D option"
  ribbonRef :: "Object3D option"
  ornamentRefs :: "Object3D option list"

record Scene =
  elapsedTime :: real
  layers :: "TreeLayer_node list"
  topperRef :: "Object3D option"

text \<open>The callbacks registered under one \<open>TreeLayer\<close>, run for one frame.\<close>

definition TreeLayer_frame :: "real \<Rightarrow> real \<Rightarrow> TreeLayer_node \<Rightarrow> TreeLayer_node" where
  "TreeLayer_frame t delta L =
     L\<lparr>groupRef := TreeLayer_useFrame (layerIndex L) (rotationSpeed L) delta (groupRef L),
       ribbonRef := Ribbon_useFrame t (ribbonRef L),
       ornamentRefs := map Ornament_useFrame (ornamentRefs L)\<rparr>"

text \<open>
  Every \<open>useFrame\<close> callback of the mounted tree, run once: \<open>t\<close> is what
  \<open>state.clock.getElapsedTime()\<close> returns in this frame and \<open>delta\<close> is the second
  argument of the callbacks. The callbacks write to different objects, so their order
  does not matter.
\<close>

definition useFrame_all :: "real \<Rightarrow> real \<Rightarrow> Scene \<Rightarrow> Scene" where
  "useFrame_all t delta s =
     s\<lparr>layers := map (TreeLayer_frame t delta) (layers s),
       topperRef := StarTopper_useFrame t (topperRef s)\<rparr>"

text \<open>
  Modelled from the spec: the render loop of react-three-fiber and the three.js clock
  are not under \<open>src/\<close>. Following the spec's \<open>tick\<close>, one frame adds \<open>deltaTime\<close> to
  the elapsed time and then runs the callbacks with the new elapsed time and with
  \<open>deltaTime\<close>.
\<close>

definition tick :: "real \<Rightarrow> Scene \<Rightarrow> Scene" where
  "tick deltaTime s =
     (let t = elapsedTime s + deltaTime
      in useFrame_all t deltaTime (s\<lparr>elapsedTime := t\<rparr>))"

text \<open>A run of frames, one \<open>deltaTime\<close> each, the first of the list first.\<close>

fun ticks :: "real list \<Rightarrow> Scene \<Rightarrow> Scene" where
  "ticks [] s = s"
| "ticks (d # ds) s = ticks ds (tick d s)"

text \<open>
  The scene that \<open>ChristmasTree\<close> mounts, before the first frame; \<open>random l\<close> are the
  draws of the layer with \<open>layerIndex = l\<close>. A \<open>TreeLayer\<close> as it is mounted there: the group takes the position and the
  scale of the props, \<open>rotationSpeed\<close> has its default 0.2, and there is one ornament
  mesh for each element of the memoised list.
\<close>

definition mount_TreeLayer ::
  "Vector3 \<Rightarrow> Vector3 \<Rightarrow> int \<Rightarrow> (nat \<Rightarrow> real) \<Rightarrow> TreeLayer_node" where
  "mount_TreeLayer pos sc l random =
     \<lparr>layerIndex = l, rotationSpeed = 0.2,
      groupRef = Some (new_Object3D\<lparr>position := pos, scale := sc\<rparr>),
      ribbonRef = Some new_Object3D,
      ornamentRefs = map (\<lambda>p. Some new_Object3D) (TreeLayer_ornaments l random)\<rparr>"

definition ChristmasTree :: "(int \<Rightarrow> nat \<Rightarrow> real) \<Rightarrow> Scene" where
  "ChristmasTree random =
     \<lparr>elapsedTime = 0,
      layers =
        [mount_TreeLayer (0, 0, 0) (1.5, 1.2, 1.5) 3 (random 3),
         mount_TreeLayer (0, 1.5, 0) (1.2, 1.2, 1.2) 2 (random 2),
         mount_TreeLayer (0, 2.8, 0) (0.9, 1.2, 0.9) 1 (random 1),
         mount_TreeLayer (0, 3.8, 0) (0.5, 1, 0.5) 0 (random 0)],
      topperRef = Some (new_Object3D\<lparr>position := (0, 4.2, 0)\<rparr>)\<rparr>"

text \<open>
  A run of frames given by what the clock returns in each: the pairs are the elapsed
  time and the delta of the frames, the first of the list first.
\<close>

fun frames :: "(real \<times> real) list \<Rightarrow> Scene \<Rightarrow> Scene" where
  "frames [] s = s"
| "frames ((t, delta) # fs) s = frames fs (useFrame_all t delta s)"

section \<open>The loops as maps, and runs of frames\<close>

declare Ribbon_loop.simps [simp del] TreeLayer_loop.simps [simp del]

lemma Ribbon_loop_eq:
  "Ribbon_loop rb rt h tu i ps = ps @ map (Ribbon_point rb rt h tu) [i..<Suc steps]"
proof (induction rb rt h tu i ps rule: Ribbon_loop.induct)
  case (1 rb rt h tu i ps)
  show ?case
  proof (cases "i \<le> steps")
    case True
    then have upt: "[i..<Suc steps] = i # [Suc i..<Suc steps]"
      by (simp add: upt_conv_Cons)
    have "Ribbon_loop rb rt h tu i ps =
        Ribbon_loop rb rt h tu (Suc i) (ps @ [Ribbon_point rb rt h tu i])"
      using True by (subst Ribbon_loop.simps) simp
    also have "\<dots> = (ps @ [Ribbon_point rb rt h tu i]) @
        map (Ribbon_point rb rt h tu) [Suc i..<Suc steps]"
      using True by (rule "1.IH")
    finally show ?thesis
      by (simp only: upt list.map append_assoc append_Cons append_Nil)
  next
    case False
    then have "Ribbon_loop rb rt h tu i ps = ps"
      by (subst Ribbon_loop.simps) simp
    with False show ?thesis by simp
  qed
qed

lemma TreeLayer_loop_eq:
  "TreeLayer_loop l rnd i items =
     items @ map (TreeLayer_item l rnd) [i..<nat (TreeLayer_count l)]"
proof (induction l rnd i items rule: TreeLayer_loop.induct)
  case (1 l rnd i items)
  show ?case
  proof (cases "int i < TreeLayer_count l")
    case True
    then have "i < nat (TreeLayer_count l)" by linarith
    then have upt: "[i..<nat (TreeLayer_count l)] = i # [Suc i..<nat (TreeLayer_count l)]"
      by (simp add: upt_conv_Cons)
    have "TreeLayer_loop l rnd i items =
        TreeLayer_loop l rnd (Suc i) (items @ [TreeLayer_item l rnd i])"
      using True by (subst TreeLayer_loop.simps) simp
    also have "\<dots> = (items @ [TreeLayer_item l rnd i]) @
        map (TreeLayer_item l rnd) [Suc i..<nat (TreeLayer_count l)]"
      using True by (rule "1.IH")
    finally show ?thesis
      by (simp only: upt list.map append_assoc append_Cons append_Nil)
  next
    case False
    then have "\<not> i < nat (TreeLayer_count l)" by linarith
    moreover from False have "TreeLayer_loop l rnd i items = items"
      by (subst TreeLayer_loop.simps) simp
    ultimately show ?thesis by simp
  qed
qed

lemma TreeLayer_ornaments_eq:
  "TreeLayer_ornaments l rnd = map (TreeLayer_item l rnd) [0..<nat (TreeLayer_count l)]"
  by (simp add: TreeLayer_ornaments_def TreeLayer_loop_eq)

lemma Ribbon_points_eq:
  "Ribbon_loop rb rt h tu 0 [] = map (Ribbon_point rb rt h tu) [0..<Suc steps]"
  by (simp add: Ribbon_loop_eq)

lemma ticks_append: "ticks (ds @ es) s = ticks es (ticks ds s)"
  by (induction ds arbitrary: s) simp_all

lemma frames_append: "frames (fs @ gs) s = frames gs (frames fs s)"
  by (induction fs arbitrary: s) auto

lemma elapsedTime_tick: "elapsedTime (tick d s) = elapsedTime s + d"
  by (simp add: tick_def useFrame_all_def Let_def)

lemma elapsedTime_ticks: "elapsedTime (ticks ds s) = elapsedTime s + sum_list ds"
  by (induction ds arbitrary: s) (simp_all add: elapsedTime_tick)

lemma length_layers_tick: "length (layers (tick d s)) = length (layers s)"
  by (simp add: tick_def useFrame_all_def Let_def)

lemma length_layers_ticks: "length (layers (ticks ds s)) = length (layers s)"
  by (induction ds arbitrary: s) (simp_all add: length_layers_tick)

lemma layer_tick:
  "k < length (layers s) \<Longrightarrow>
   layers (tick d s) ! k = TreeLayer_frame (elapsedTime s + d) d (layers s ! k)"
  by (simp add: tick_def useFrame_all_def Let_def)

lemma layerIndex_ticks:
  "k < length (layers s) \<Longrightarrow>
   layerIndex (layers (ticks ds s) ! k) = layerIndex (layers s ! k) \<and>
   rotationSpeed (layers (ticks ds s) ! k) = rotationSpeed (layers s ! k)"
  by (induction ds arbitrary: s)
     (simp_all add: layer_tick length_layers_tick TreeLayer_frame_def)

lemma group_yaw_tick:
  "k < length (layers s) \<Longrightarrow>
   map_option rotation_y (groupRef (layers (tick d s) ! k)) =
   map_option (\<lambda>g. rotation_y g +
       d * rotationSpeed (layers s ! k) * TreeLayer_dir (layerIndex (layers s ! k)) * 0.5)
     (groupRef (layers s ! k))"
  by (simp add: layer_tick TreeLayer_frame_def TreeLayer_useFrame_def if_current_def
      split: option.splits)

lemma group_yaw_ticks:
  "k < length (layers s) \<Longrightarrow>
   map_option rotation_y (groupRef (layers (ticks ds s) ! k)) =
   map_option (\<lambda>g. rotation_y g +
       sum_list ds * rotationSpeed (layers s ! k) * TreeLayer_dir (layerIndex (layers s ! k)) * 0.5)
     (groupRef (layers s ! k))"
proof (induction ds arbitrary: s)
  case Nil
  then show ?case by (simp add: option.map_ident)
next
  case (Cons d ds)
  have k: "k < length (layers (tick d s))"
    using Cons.prems by (simp add: length_layers_tick)
  have same: "layerIndex (layers (tick d s) ! k) = layerIndex (layers s ! k)"
    "rotationSpeed (layers (tick d s) ! k) = rotationSpeed (layers s ! k)"
    using Cons.prems by (simp_all add: layer_tick TreeLayer_frame_def)
  show ?case
  proof (cases "groupRef (layers s ! k)")
    case None
    with group_yaw_tick [OF Cons.prems, of d]
    have "groupRef (layers (tick d s) ! k) = None" by simp
    with Cons.IH [OF k] None show ?thesis by simp
  next
    case (Some g)
    with group_yaw_tick [OF Cons.prems, of d]
    obtain g' where g': "groupRef (layers (tick d s) ! k) = Some g'"
      and y: "rotation_y g' = rotation_y g +
         d * rotationSpeed (layers s ! k) * TreeLayer_dir (layerIndex (layers s ! k)) * 0.5"
      by auto
    from Cons.IH [OF k] g' same y Some show ?thesis
      by (simp add: algebra_simps)
  qed
qed

lemma if_current_None [simp]: "if_current None f = None"
  by (simp add: if_current_def)

lemma if_current_Some [simp]: "if_current (Some x) f = Some (f x)"
  by (simp add: if_current_def)

lemma Ornament_funpow_None: "(Ornament_useFrame ^^ n) None = None"
  by (induction n) (simp_all add: Ornament_useFrame_def)

lemma Ornament_funpow_Some:
  "(Ornament_useFrame ^^ n) (Some m) =
     Some (m\<lparr>rotation_y := rotation_y m + real n * 0.01,
             rotation_z := rotation_z m + real n * 0.005\<rparr>)"
  by (induction n) (simp_all add: Ornament_useFrame_def algebra_simps)

lemma ornaments_tick:
  "k < length (layers s) \<Longrightarrow>
   ornamentRefs (layers (tick d s) ! k) = map Ornament_useFrame (ornamentRefs (layers s ! k))"
  by (simp add: layer_tick TreeLayer_frame_def)

lemma ornaments_ticks:
  "k < length (layers s) \<Longrightarrow>
   ornamentRefs (layers (ticks ds s) ! k) =
     map (Ornament_useFrame ^^ length ds) (ornamentRefs (layers s ! k))"
proof (induction ds arbitrary: s)
  case Nil
  then show ?case by simp
next
  case (Cons d ds)
  have k: "k < length (layers (tick d s))"
    using Cons.prems by (simp add: length_layers_tick)
  show ?case
    using Cons.IH [OF k] ornaments_tick [OF Cons.prems, of d]
    by (simp add: funpow_swap1)
qed

lemma topper_tick:
  "topperRef (tick d s) = StarTopper_useFrame (elapsedTime s + d) (topperRef s)"
  by (simp add: tick_def useFrame_all_def Let_def)

lemma ribbon_tick:
  "k < length (layers s) \<Longrightarrow>
   ribbonRef (layers (tick d s) ! k) = Ribbon_useFrame (elapsedTime s + d) (ribbonRef (layers s ! k))"
  by (simp add: layer_tick TreeLayer_frame_def)

lemma sin_pulse_bounds: "0.9 \<le> 1 + sin x * 0.1 \<and> 1 + sin x * 0.1 \<le> (1.1::real)"
proof -
  have "- 1 \<le> sin x" "sin x \<le> 1" by simp_all
  then show ?thesis by linarith
qed

lemma length_TreeLayer_ornaments:
  "length (TreeLayer_ornaments l rnd) = nat (TreeLayer_count l)"
  by (simp add: TreeLayer_ornaments_eq)

lemma nth_TreeLayer_ornaments:
  "i < nat (TreeLayer_count l) \<Longrightarrow> TreeLayer_ornaments l rnd ! i = TreeLayer_item l rnd i"
  by (simp add: TreeLayer_ornaments_eq)

lemma length_Ribbon_points: "length (Ribbon_loop rb rt h tu 0 []) = Suc steps"
  by (simp add: Ribbon_points_eq)

lemma nth_Ribbon_points:
  "i \<le> steps \<Longrightarrow> Ribbon_loop rb rt h tu 0 [] ! i = Ribbon_point rb rt h tu i"
proof -
  assume "i \<le> steps"
  then have "i < length [0..<Suc steps]" by simp
  then have "map (Ribbon_point rb rt h tu) [0..<Suc steps] ! i = Ribbon_point rb rt h tu ([0..<Suc steps] ! i)"
    by (rule nth_map)
  also have "[0..<Suc steps] ! i = i"
    using \<open>i \<le> steps\<close> by (metis add_0 less_Suc_eq_le nth_upt)
  finally show ?thesis by (simp only: Ribbon_points_eq)
qed

lemma ChristmasTree_top_layer:
  "layers (ChristmasTree rnd) ! 3 = mount_TreeLayer (0, 3.8, 0) (0.5, 1, 0.5) 0 (rnd 0)"
  by (simp add: ChristmasTree_def)

lemma ChristmasTree_top_ornaments:
  "ornamentRefs (layers (ChristmasTree rnd) ! 3) = replicate 6 (Some new_Object3D)"
  by (simp add: ChristmasTree_top_layer mount_TreeLayer_def map_replicate_const
      length_TreeLayer_ornaments TreeLayer_count_def)

section \<open>The claims\<close>

text \<open>
  C7. Running \<open>tick\<close> for \<open>N\<close> frames of \<open>dt\<close> and then for \<open>M\<close> more frames of \<open>dt\<close>
  leaves the scene (the elapsed time and the transform of every node) exactly as
  running it for \<open>N + M\<close> frames of \<open>dt\<close> does. This holds for every \<open>dt\<close>, and also
  when the elapsed times of the frames are whatever the clock returns (\<open>ts\<close> for the
  first frames, \<open>us\<close> for the following ones).
\<close>

theorem ticks_split:
  "ticks (replicate M dt) (ticks (replicate N dt) s) = ticks (replicate (N + M) dt) s \<and>
   frames (map (\<lambda>t. (t, dt)) us) (frames (map (\<lambda>t. (t, dt)) ts) s) =
     frames (map (\<lambda>t. (t, dt)) (ts @ us)) s"
proof -
  have "replicate (N + M) dt = replicate N dt @ replicate M dt"
    by (rule replicate_add)
  then have "ticks (replicate (N + M) dt) s = ticks (replicate M dt) (ticks (replicate N dt) s)"
    by (simp only: ticks_append)
  moreover have "frames (map (\<lambda>t. (t, dt)) (ts @ us)) s =
      frames (map (\<lambda>t. (t, dt)) us) (frames (map (\<lambda>t. (t, dt)) ts) s)"
    by (simp only: map_append frames_append)
  ultimately show ?thesis by simp
qed

theorem ticks_split_witness:
  "ticks (replicate 2 1) (ticks (replicate 3 1) (ChristmasTree (\<lambda>l i. 0))) =
   ticks (replicate 5 1) (ChristmasTree (\<lambda>l i. 0))"
  using ticks_split [of 2 1 3 "ChristmasTree (\<lambda>l i. 0)"] by simp

text \<open>
  C9. At every elapsed time \<open>t\<close> the callback of \<open>StarTopper\<close> sets the uniform scale of
  the mounted topper to \<open>1 + sin (t * 2) * 0.1\<close>, computed from \<open>t\<close> alone, and this value
  lies between \<open>1 - 0.1\<close> and \<open>1 + 0.1\<close>; so does the scale of the topper after every
  \<open>tick\<close> of a scene.
\<close>

theorem StarTopper_scale_within_pulse_bounds:
  assumes "topperRef s = Some g"
  shows "(\<exists>g' p. StarTopper_useFrame t (Some g) = Some g' \<and> p = 1 + sin (t * 2) * 0.1 \<and>
            scale g' = (p, p, p) \<and> 1 - 0.1 \<le> p \<and> p \<le> 1 + 0.1) \<and>
         (\<exists>g' p. topperRef (tick d s) = Some g' \<and>
            p = 1 + sin ((elapsedTime s + d) * 2) * 0.1 \<and>
            scale g' = (p, p, p) \<and> 1 - 0.1 \<le> p \<and> p \<le> 1 + 0.1)"
proof -
  have b: "\<And>x::real. 1 - 0.1 \<le> 1 + sin x * 0.1 \<and> 1 + sin x * 0.1 \<le> 1 + 0.1"
    using sin_pulse_bounds by simp
  have "topperRef (tick d s) = StarTopper_useFrame (elapsedTime s + d) (Some g)"
    using assms by (simp add: topper_tick)
  then show ?thesis
    using b by (simp add: StarTopper_useFrame_def setScalar_def)
qed

theorem StarTopper_scale_within_pulse_bounds_witness:
  "topperRef (ChristmasTree (\<lambda>l i. 0)) = Some (new_Object3D\<lparr>position := (0, 4.2, 0)\<rparr>) \<and>
   (\<exists>g' p. topperRef (tick 1 (ChristmasTree (\<lambda>l i. 0))) = Some g' \<and>
      p = 1 + sin ((elapsedTime (ChristmasTree (\<lambda>l i. 0)) + 1) * 2) * 0.1 \<and>
      scale g' = (p, p, p) \<and> 1 - 0.1 \<le> p \<and> p \<le> 1 + 0.1)"
proof -
  have h: "topperRef (ChristmasTree (\<lambda>l i. 0)) = Some (new_Object3D\<lparr>position := (0, 4.2, 0)\<rparr>)"
    by (simp add: ChristmasTree_def)
  from StarTopper_scale_within_pulse_bounds [OF h, of 0 1] h show ?thesis
    by blast
qed

text \<open>
  C10. Each frame adds 0.01 to the yaw and 0.005 to the roll of a mounted ornament mesh,
  whatever the frame's \<open>delta\<close> is: after a run of frames the rotation is the initial one
  plus these constants times the number of frames, and the deltas do not occur in it.
\<close>

theorem Ornament_rotation_per_frame:
  assumes "k < length (layers s)" and "i < length (ornamentRefs (layers s ! k))"
    and "ornamentRefs (layers s ! k) ! i = Some m"
  shows "Ornament_useFrame (Some m) =
           Some (m\<lparr>rotation_y := rotation_y m + 0.01, rotation_z := rotation_z m + 0.005\<rparr>) \<and>
         ornamentRefs (layers (tick delta s) ! k) ! i =
           Some (m\<lparr>rotation_y := rotation_y m + 0.01, rotation_z := rotation_z m + 0.005\<rparr>) \<and>
         ornamentRefs (layers (ticks ds s) ! k) ! i =
           Some (m\<lparr>rotation_y := rotation_y m + real (length ds) * 0.01,
                   rotation_z := rotation_z m + real (length ds) * 0.005\<rparr>)"
proof -
  have one: "Ornament_useFrame (Some m) =
      Some (m\<lparr>rotation_y := rotation_y m + 0.01, rotation_z := rotation_z m + 0.005\<rparr>)"
    by (simp add: Ornament_useFrame_def)
  have "ornamentRefs (layers (tick delta s) ! k) ! i = Ornament_useFrame (Some m)"
    using assms by (simp add: ornaments_tick)
  moreover have "ornamentRefs (layers (ticks ds s) ! k) ! i =
      (Ornament_useFrame ^^ length ds) (Some m)"
    using assms by (simp add: ornaments_ticks)
  ultimately show ?thesis
    using one by (simp add: Ornament_funpow_Some)
qed

theorem Ornament_rotation_per_frame_witness:
  "ornamentRefs (layers (ticks [1, 5] (ChristmasTree (\<lambda>l i. 0))) ! 3) ! 0 =
     Some (new_Object3D\<lparr>rotation_y := 0.02, rotation_z := 0.01\<rparr>) \<and>
   ornamentRefs (layers (ticks [0.016, 0.016] (ChristmasTree (\<lambda>l i. 0))) ! 3) ! 0 =
     Some (new_Object3D\<lparr>rotation_y := 0.02, rotation_z := 0.01\<rparr>)"
proof -
  let ?s = "ChristmasTree (\<lambda>l i. 0)"
  have k: "3 < length (layers ?s)" by (simp add: ChristmasTree_def)
  have i: "0 < length (ornamentRefs (layers ?s ! 3))"
    by (simp add: ChristmasTree_top_ornaments)
  have m: "ornamentRefs (layers ?s ! 3) ! 0 = Some new_Object3D"
    by (simp add: ChristmasTree_top_ornaments)
  from Ornament_rotation_per_frame [OF k i m, of 1 "[1, 5]"]
    Ornament_rotation_per_frame [OF k i m, of 1 "[0.016, 0.016]"]
  show ?thesis by (simp add: new_Object3D_def)
qed

lemma TreeLayer_dir_even: "even l \<Longrightarrow> TreeLayer_dir l = 1"
  by (simp add: TreeLayer_dir_def even_iff_mod_2_eq_zero)

lemma TreeLayer_dir_odd: "odd l \<Longrightarrow> TreeLayer_dir l = - 1"
  by (simp add: TreeLayer_dir_def even_iff_mod_2_eq_zero)

text \<open>
  C4. Take two mounted layers of a scene, one with an even and one with an odd
  \<open>layerIndex\<close> (adjacent indices are such a pair), with the same \<open>rotationSpeed\<close>
  \<open>v\<close>. After any run of frames whose deltas sum to \<open>T\<close>, the yaw accumulated by the
  even layer is \<open>+1 * (T * v * 0.5)\<close> and the yaw accumulated by the odd layer is
  \<open>-1 * (T * v * 0.5)\<close>: equal magnitudes, opposite signs.
\<close>

theorem counter_rotating_layers:
  assumes "k < length (layers s)" and "j < length (layers s)"
    and "even (layerIndex (layers s ! k))" and "odd (layerIndex (layers s ! j))"
    and "rotationSpeed (layers s ! k) = v" and "rotationSpeed (layers s ! j) = v"
    and "groupRef (layers s ! k) = Some a" and "groupRef (layers s ! j) = Some b"
  shows "\<exists>a' b'. groupRef (layers (ticks ds s) ! k) = Some a' \<and>
           groupRef (layers (ticks ds s) ! j) = Some b' \<and>
           rotation_y a' - rotation_y a = 1 * (sum_list ds * v * 0.5) \<and>
           rotation_y b' - rotation_y b = - 1 * (sum_list ds * v * 0.5) \<and>
           rotation_y b' - rotation_y b = - (rotation_y a' - rotation_y a) \<and>
           \<bar>rotation_y b' - rotation_y b\<bar> = \<bar>rotation_y a' - rotation_y a\<bar>"
proof -
  have "map_option rotation_y (groupRef (layers (ticks ds s) ! k)) =
      Some (rotation_y a + sum_list ds * v * 0.5)"
    using assms by (simp add: group_yaw_ticks TreeLayer_dir_even)
  then obtain a' where a': "groupRef (layers (ticks ds s) ! k) = Some a'"
    "rotation_y a' = rotation_y a + sum_list ds * v * 0.5"
    by auto
  have "map_option rotation_y (groupRef (layers (ticks ds s) ! j)) =
      Some (rotation_y b - sum_list ds * v * 0.5)"
    using assms by (simp add: group_yaw_ticks TreeLayer_dir_odd)
  then obtain b' where b': "groupRef (layers (ticks ds s) ! j) = Some b'"
    "rotation_y b' = rotation_y b - sum_list ds * v * 0.5"
    by auto
  from a' b' show ?thesis by simp
qed

theorem counter_rotating_layers_witness:
  "\<exists>a' b'. groupRef (layers (ticks [1, 2] (ChristmasTree (\<lambda>l i. 0))) ! 1) = Some a' \<and>
     groupRef (layers (ticks [1, 2] (ChristmasTree (\<lambda>l i. 0))) ! 2) = Some b' \<and>
     rotation_y a' = 0.3 \<and> rotation_y b' = - 0.3"
proof -
  let ?s = "ChristmasTree (\<lambda>l i. 0)"
  have k: "1 < length (layers ?s)" and j: "2 < length (layers ?s)"
    by (simp_all add: ChristmasTree_def)
  have e: "even (layerIndex (layers ?s ! 1))" and od: "odd (layerIndex (layers ?s ! 2))"
    by (simp_all add: ChristmasTree_def mount_TreeLayer_def)
  have v: "rotationSpeed (layers ?s ! 1) = 0.2" "rotationSpeed (layers ?s ! 2) = 0.2"
    by (simp_all add: ChristmasTree_def mount_TreeLayer_def)
  have a: "groupRef (layers ?s ! 1) =
      Some (new_Object3D\<lparr>position := (0, 1.5, 0), scale := (1.2, 1.2, 1.2)\<rparr>)"
    and b: "groupRef (layers ?s ! 2) =
      Some (new_Object3D\<lparr>position := (0, 2.8, 0), scale := (0.9, 1.2, 0.9)\<rparr>)"
    by (simp_all add: ChristmasTree_def mount_TreeLayer_def)
  from counter_rotating_layers [OF k j e od v a b, of "[1, 2]"]
  show ?thesis by (simp add: new_Object3D_def) blast
qed

text \<open>
  C8, as the spec states it, fails: no callback reduces an angle modulo \<open>2 * pi\<close>. After one
  frame of one second the group of the layer with \<open>layerIndex = 1\<close> has the yaw \<open>-0.1\<close>,
  which is outside \<open>[0, 2 * pi)\<close>.
\<close>

theorem rotation_not_reduced_counterexample:
  "\<exists>g. groupRef (layers (tick 1 (ChristmasTree (\<lambda>l i. 0))) ! 2) = Some g \<and>
     rotation_y g = - 0.1 \<and> \<not> (0 \<le> rotation_y g \<and> rotation_y g < 2 * pi)"
proof -
  let ?s = "ChristmasTree (\<lambda>l i. 0)"
  have "map_option rotation_y (groupRef (layers (tick 1 ?s) ! 2)) = Some (- 0.1)"
    by (simp add: group_yaw_tick ChristmasTree_def mount_TreeLayer_def
        TreeLayer_dir_def new_Object3D_def)
  then show ?thesis by auto
qed

text \<open>
  C8, amended. The rotation angles accumulate additively and are never reduced: after a
  run of frames \<open>ds\<close> the yaw of a mounted layer group is its initial yaw plus
  \<open>sum ds * rotationSpeed * dir * 0.5\<close> (\<open>dir\<close> is 1 for an even and -1 for an odd
  \<open>layerIndex\<close>), and the yaw and roll of a mounted ornament are the initial ones plus 0.01
  and 0.005 for each frame.
\<close>

theorem rotation_accumulates_unreduced:
  assumes "k < length (layers s)"
    and "groupRef (layers s ! k) = Some g"
    and "i < length (ornamentRefs (layers s ! k))"
    and "ornamentRefs (layers s ! k) ! i = Some m"
  shows "\<exists>g' m'. groupRef (layers (ticks ds s) ! k) = Some g' \<and>
           rotation_y g' = rotation_y g +
             sum_list ds * rotationSpeed (layers s ! k) *
               (if even (layerIndex (layers s ! k)) then 1 else - 1) * 0.5 \<and>
           ornamentRefs (layers (ticks ds s) ! k) ! i = Some m' \<and>
           rotation_y m' = rotation_y m + real (length ds) * 0.01 \<and>
           rotation_z m' = rotation_z m + real (length ds) * 0.005"
proof -
  have dir: "TreeLayer_dir (layerIndex (layers s ! k)) =
      (if even (layerIndex (layers s ! k)) then 1 else - 1)"
    by (simp add: TreeLayer_dir_even TreeLayer_dir_odd)
  have "map_option rotation_y (groupRef (layers (ticks ds s) ! k)) =
      Some (rotation_y g + sum_list ds * rotationSpeed (layers s ! k) *
        TreeLayer_dir (layerIndex (layers s ! k)) * 0.5)"
    using assms by (simp add: group_yaw_ticks)
  then obtain g' where g': "groupRef (layers (ticks ds s) ! k) = Some g'"
    "rotation_y g' = rotation_y g + sum_list ds * rotationSpeed (layers s ! k) *
        TreeLayer_dir (layerIndex (layers s ! k)) * 0.5"
    by auto
  have "ornamentRefs (layers (ticks ds s) ! k) ! i = (Ornament_useFrame ^^ length ds) (Some m)"
    using assms by (simp add: ornaments_ticks)
  then have m': "ornamentRefs (layers (ticks ds s) ! k) ! i =
      Some (m\<lparr>rotation_y := rotation_y m + real (length ds) * 0.01,
             rotation_z := rotation_z m + real (length ds) * 0.005\<rparr>)"
    by (simp add: Ornament_funpow_Some)
  from g' m' dir show ?thesis by simp
qed

theorem rotation_accumulates_unreduced_witness:
  "\<exists>g' m'. groupRef (layers (ticks (replicate 700 1) (ChristmasTree (\<lambda>l i. 0))) ! 3) = Some g' \<and>
     rotation_y g' = 70 \<and>
     ornamentRefs (layers (ticks (replicate 700 1) (ChristmasTree (\<lambda>l i. 0))) ! 3) ! 0 = Some m' \<and>
     rotation_y m' = 7 \<and> rotation_z m' = 3.5"
proof -
  let ?s = "ChristmasTree (\<lambda>l i. 0)"
  have k: "3 < length (layers ?s)" by (simp add: ChristmasTree_def)
  have g: "groupRef (layers ?s ! 3) =
      Some (new_Object3D\<lparr>position := (0, 3.8, 0), scale := (0.5, 1, 0.5)\<rparr>)"
    by (simp add: ChristmasTree_top_layer mount_TreeLayer_def)
  have i: "0 < length (ornamentRefs (layers ?s ! 3))"
    by (simp add: ChristmasTree_top_ornaments)
  have m: "ornamentRefs (layers ?s ! 3) ! 0 = Some new_Object3D"
    by (simp add: ChristmasTree_top_ornaments)
  have l: "layerIndex (layers ?s ! 3) = 0" "rotationSpeed (layers ?s ! 3) = 0.2"
    by (simp_all add: ChristmasTree_top_layer mount_TreeLayer_def)
  have sl: "sum_list (replicate 700 (1::real)) = 700"
    by (simp add: sum_list_replicate)
  from rotation_accumulates_unreduced [OF k g i m, of "replicate 700 1"]
  show ?thesis
    unfolding l sl length_replicate by (simp add: new_Object3D_def)
qed

lemma TreeLayer_useFrame_zero: "TreeLayer_useFrame l v 0 ref = ref"
  by (cases ref) (simp_all add: TreeLayer_useFrame_def)

text \<open>
  C2, as the spec states it, fails: no callback looks at the sign of \<open>delta\<close>. A frame with
  \<open>deltaTime = 0\<close> changes the scene, since every ornament advances by its constants
  (the first ornament of the top layer goes from yaw 0 to yaw 0.01), and a frame with
  \<open>deltaTime = -1\<close> is applied too: it turns the group of the top layer back to yaw
  \<open>-0.1\<close>.
\<close>

theorem tick_zero_not_rejected_counterexample:
  "tick 0 (ChristmasTree (\<lambda>l i. 0)) \<noteq> ChristmasTree (\<lambda>l i. 0) \<and>
   map_option rotation_y (ornamentRefs (layers (ChristmasTree (\<lambda>l i. 0)) ! 3) ! 0) = Some 0 \<and>
   map_option rotation_y (ornamentRefs (layers (tick 0 (ChristmasTree (\<lambda>l i. 0))) ! 3) ! 0) =
     Some 0.01 \<and>
   map_option rotation_y (groupRef (layers (ChristmasTree (\<lambda>l i. 0)) ! 3)) = Some 0 \<and>
   map_option rotation_y (groupRef (layers (tick (- 1) (ChristmasTree (\<lambda>l i. 0))) ! 3)) =
     Some (- 0.1)"
proof -
  let ?s = "ChristmasTree (\<lambda>l i. 0)"
  have k: "3 < length (layers ?s)" by (simp add: ChristmasTree_def)
  have before: "map_option rotation_y (ornamentRefs (layers ?s ! 3) ! 0) = Some 0"
    by (simp add: ChristmasTree_top_ornaments new_Object3D_def)
  have after: "map_option rotation_y (ornamentRefs (layers (tick 0 ?s) ! 3) ! 0) = Some 0.01"
    by (simp add: ornaments_tick [OF k] ChristmasTree_top_ornaments Ornament_useFrame_def
        new_Object3D_def)
  have ne: "tick 0 ?s \<noteq> ?s"
  proof
    assume "tick 0 ?s = ?s"
    with after have "map_option rotation_y (ornamentRefs (layers ?s ! 3) ! 0) = Some 0.01"
      by simp
    with before show False by simp
  qed
  have g0: "map_option rotation_y (groupRef (layers ?s ! 3)) = Some 0"
    by (simp add: ChristmasTree_top_layer mount_TreeLayer_def new_Object3D_def)
  have g1: "map_option rotation_y (groupRef (layers (tick (- 1) ?s) ! 3)) = Some (- 0.1)"
    by (simp add: group_yaw_tick [OF k] ChristmasTree_top_layer mount_TreeLayer_def
        TreeLayer_dir_def new_Object3D_def)
  from ne before after g0 g1 show ?thesis by simp
qed

text \<open>
  C2, amended. No frame is rejected. For every \<open>deltaTime\<close>, positive or not, a frame adds
  \<open>deltaTime * rotationSpeed * dir * 0.5\<close> to the yaw of every mounted layer group and
  advances every mounted ornament by yaw 0.01 and roll 0.005. With \<open>deltaTime = 0\<close> the
  layer groups are left as they were.
\<close>

theorem tick_applies_every_delta:
  assumes "k < length (layers s)"
  shows "groupRef (layers (tick 0 s) ! k) = groupRef (layers s ! k) \<and>
         groupRef (layers (tick d s) ! k) =
           if_current (groupRef (layers s ! k))
             (\<lambda>g. g\<lparr>rotation_y := rotation_y g +
                d * rotationSpeed (layers s ! k) * TreeLayer_dir (layerIndex (layers s ! k)) * 0.5\<rparr>) \<and>
         ornamentRefs (layers (tick d s) ! k) =
           map (\<lambda>ref. if_current ref
                  (\<lambda>m. m\<lparr>rotation_y := rotation_y m + 0.01,
                          rotation_z := rotation_z m + 0.005\<rparr>))
             (ornamentRefs (layers s ! k))"
proof -
  have "groupRef (layers (tick 0 s) ! k) = groupRef (layers s ! k)"
    using assms by (simp add: layer_tick TreeLayer_frame_def TreeLayer_useFrame_zero)
  moreover have "groupRef (layers (tick d s) ! k) =
      if_current (groupRef (layers s ! k))
        (\<lambda>g. g\<lparr>rotation_y := rotation_y g +
           d * rotationSpeed (layers s ! k) * TreeLayer_dir (layerIndex (layers s ! k)) * 0.5\<rparr>)"
    using assms by (simp add: layer_tick TreeLayer_frame_def TreeLayer_useFrame_def)
  moreover have "ornamentRefs (layers (tick d s) ! k) =
      map (\<lambda>ref. if_current ref
             (\<lambda>m. m\<lparr>rotation_y := rotation_y m + 0.01, rotation_z := rotation_z m + 0.005\<rparr>))
        (ornamentRefs (layers s ! k))"
    using assms by (simp add: ornaments_tick Ornament_useFrame_def [abs_def])
  ultimately show ?thesis by simp
qed

theorem tick_applies_every_delta_witness:
  "groupRef (layers (tick 0 (ChristmasTree (\<lambda>l i. 0))) ! 3) =
     groupRef (layers (ChristmasTree (\<lambda>l i. 0)) ! 3) \<and>
   groupRef (layers (tick (- 1) (ChristmasTree (\<lambda>l i. 0))) ! 3) =
     Some (new_Object3D\<lparr>position := (0, 3.8, 0), rotation_y := - 0.1, scale := (0.5, 1, 0.5)\<rparr>) \<and>
   ornamentRefs (layers (tick 0 (ChristmasTree (\<lambda>l i. 0))) ! 3) =
     replicate 6 (Some (new_Object3D\<lparr>rotation_y := 0.01, rotation_z := 0.005\<rparr>))"
proof -
  let ?s = "ChristmasTree (\<lambda>l i. 0)"
  have k: "3 < length (layers ?s)" by (simp add: ChristmasTree_def)
  have l: "layerIndex (layers ?s ! 3) = 0" "rotationSpeed (layers ?s ! 3) = 0.2"
    "groupRef (layers ?s ! 3) =
      Some (new_Object3D\<lparr>position := (0, 3.8, 0), scale := (0.5, 1, 0.5)\<rparr>)"
    by (simp_all add: ChristmasTree_top_layer mount_TreeLayer_def)
  from tick_applies_every_delta [OF k, of "- 1"] tick_applies_every_delta [OF k, of 0]
  show ?thesis
    unfolding l ChristmasTree_top_ornaments
    by (simp add: new_Object3D_def TreeLayer_dir_def)
qed

text \<open>
  C3, as the spec states it, fails: the construction of the curve has no failing path.
  With \<open>radiusBottom = radiusTop = -1\<close> it returns a curve of 101 points.
\<close>

theorem Ribbon_curve_never_fails_counterexample:
  "\<not> isl (Ribbon_curve (- 1) (- 1) 2.5 3) \<and>
   (\<exists>c. Ribbon_curve (- 1) (- 1) 2.5 3 = Inr c \<and> length (curve_points c) = 101)"
  by (simp add: Ribbon_curve_def length_Ribbon_points steps_def)

text \<open>
  C3, amended. The construction validates nothing and never fails: the number of steps
  is the constant 100 (so it is never below 2), and for all \<open>radiusBottom\<close>, \<open>radiusTop\<close>
  (negative ones too), \<open>height\<close> and \<open>turns\<close> it returns a curve of 101 control points.
\<close>

theorem Ribbon_curve_always_built:
  "2 \<le> steps \<and>
   (\<exists>c. Ribbon_curve radiusBottom radiusTop height turns = Inr c \<and>
      length (curve_points c) = 101)"
  by (simp add: Ribbon_curve_def length_Ribbon_points steps_def)

theorem Ribbon_curve_always_built_witness:
  "\<exists>c. Ribbon_curve 1.8 0.1 2.5 3 = Inr c \<and> length (curve_points c) = 101"
  using Ribbon_curve_always_built [of "1.8" "0.1" "2.5" 3] by simp

lemma Ribbon_t_100: "Ribbon_t i = real i / 100"
  by (simp add: Ribbon_t_def steps_def)

lemma Ribbon_point_eq:
  "Ribbon_point rb rt h tu i =
     (cos (real i / 100 * (2 * pi) * tu) *
        ((1 - real i / 100) * (rb + 0.2) + real i / 100 * (rt + 0.2)),
      (real i / 100 - 0.5) * h,
      sin (real i / 100 * (2 * pi) * tu) *
        ((1 - real i / 100) * (rb + 0.2) + real i / 100 * (rt + 0.2)))"
proof -
  have th: "Ribbon_theta tu i = real i / 100 * (2 * pi) * tu"
    by (simp add: Ribbon_theta_def Ribbon_t_100)
  have r: "Ribbon_r rb rt i = (1 - real i / 100) * (rb + 0.2) + real i / 100 * (rt + 0.2)"
    by (simp add: Ribbon_r_def lerp_def rOffset_def Ribbon_t_100)
  have y: "Ribbon_y h i = (real i / 100 - 0.5) * h"
    by (simp add: Ribbon_y_def Ribbon_t_100)
  show ?thesis
    unfolding Ribbon_point_def Let_def th r y by (rule refl)
qed

text \<open>
  C5, as the spec states it, fails. The angle is not increasing for every number of turns
  that the construction accepts: with \<open>turns = -1\<close> the angle falls from 0 at the first
  point to \<open>-2 * pi / 100\<close> at the second, and with \<open>turns = 0\<close> it stays 0. Nor is
  the number of samples an argument: the curve has 101 points, not the 3 points of a
  sample count of 2.
\<close>

theorem Ribbon_curve_claim_counterexample:
  "(\<exists>ps. Ribbon_curve 1.8 0.1 2.5 (- 1) = Inr (CatmullRomCurve3 ps) \<and>
      length ps = 101 \<and> length ps \<noteq> 2 + 1 \<and>
      ps ! 1 = Ribbon_point 1.8 0.1 2.5 (- 1) 1) \<and>
   Ribbon_theta (- 1) 0 = 0 \<and>
   Ribbon_theta (- 1) 1 = - (2 * pi / 100) \<and>
   Ribbon_theta (- 1) 1 < Ribbon_theta (- 1) 0 \<and>
   Ribbon_theta 0 1 = Ribbon_theta 0 0"
proof -
  let ?ps = "Ribbon_loop 1.8 0.1 2.5 (- 1) 0 []"
  have "Ribbon_curve 1.8 0.1 2.5 (- 1) = Inr (CatmullRomCurve3 ?ps)"
    by (simp add: Ribbon_curve_def)
  moreover have "length ?ps = 101"
    by (simp add: length_Ribbon_points steps_def)
  moreover have "?ps ! 1 = Ribbon_point 1.8 0.1 2.5 (- 1) 1"
    by (rule nth_Ribbon_points) (simp add: steps_def)
  ultimately have pts: "\<exists>ps. Ribbon_curve 1.8 0.1 2.5 (- 1) = Inr (CatmullRomCurve3 ps) \<and>
      length ps = 101 \<and> length ps \<noteq> 2 + 1 \<and>
      ps ! 1 = Ribbon_point 1.8 0.1 2.5 (- 1) 1"
    by simp
  have t0: "Ribbon_theta (- 1) 0 = 0"
    by (simp add: Ribbon_theta_def Ribbon_t_100)
  have t1: "Ribbon_theta (- 1) 1 = - (2 * pi / 100)"
    by (simp add: Ribbon_theta_def Ribbon_t_100)
  have lt: "Ribbon_theta (- 1) 1 < Ribbon_theta (- 1) 0"
    unfolding t0 t1 by simp
  have z: "Ribbon_theta 0 1 = Ribbon_theta 0 0"
    by (simp add: Ribbon_theta_def)
  from pts t0 t1 lt z show ?thesis by blast
qed

text \<open>
  C5, amended. For all \<open>radiusBottom\<close>, \<open>radiusTop\<close>, \<open>height\<close> and \<open>turns\<close> the
  construction returns a curve of exactly \<open>100 + 1\<close> control points: the sample count
  is the constant 100 and the radial offset the constant 0.2. With \<open>t = i / 100\<close>, point
  \<open>i\<close> is \<open>(cos angle * r, (t - 0.5) * height, sin angle * r)\<close> for the angle
  \<open>t * 2 * pi * turns\<close> and the radius \<open>r\<close> interpolated linearly between
  \<open>radiusBottom + 0.2\<close> and \<open>radiusTop + 0.2\<close>. The first angle is 0 and the last is
  \<open>2 * pi * turns\<close>. When \<open>turns\<close> is not negative the angle never decreases from one
  point to the next, and when \<open>turns\<close> is positive the last angle is above the first.
\<close>

theorem Ribbon_curve_points:
  "\<exists>ps. Ribbon_curve radiusBottom radiusTop height turns = Inr (CatmullRomCurve3 ps) \<and>
     length ps = 100 + 1 \<and>
     (\<forall>i\<le>100. ps ! i =
        (cos (real i / 100 * (2 * pi) * turns) *
           ((1 - real i / 100) * (radiusBottom + 0.2) + real i / 100 * (radiusTop + 0.2)),
         (real i / 100 - 0.5) * height,
         sin (real i / 100 * (2 * pi) * turns) *
           ((1 - real i / 100) * (radiusBottom + 0.2) + real i / 100 * (radiusTop + 0.2)))) \<and>
     (\<forall>i. Ribbon_theta turns i = real i / 100 * (2 * pi) * turns) \<and>
     Ribbon_theta turns 0 = 0 \<and>
     Ribbon_theta turns 100 = 2 * pi * turns \<and>
     (\<forall>i j. 0 \<le> turns \<longrightarrow> i \<le> j \<longrightarrow> Ribbon_theta turns i \<le> Ribbon_theta turns j) \<and>
     (0 < turns \<longrightarrow> Ribbon_theta turns 0 < Ribbon_theta turns 100)"
proof -
  let ?ps = "Ribbon_loop radiusBottom radiusTop height turns 0 []"
  have th: "\<And>i. Ribbon_theta turns i = real i / 100 * (2 * pi) * turns"
    by (simp add: Ribbon_theta_def Ribbon_t_100)
  have mono: "Ribbon_theta turns i \<le> Ribbon_theta turns j" if "0 \<le> turns" "i \<le> j" for i j
  proof -
    from that have "real i / 100 * (2 * pi) \<le> real j / 100 * (2 * pi)"
      by simp
    from this \<open>0 \<le> turns\<close> show ?thesis
      unfolding th by (rule mult_right_mono)
  qed
  have rise: "0 < turns \<longrightarrow> Ribbon_theta turns 0 < Ribbon_theta turns 100"
    by (simp add: th)
  have "Ribbon_curve radiusBottom radiusTop height turns = Inr (CatmullRomCurve3 ?ps)"
    by (simp add: Ribbon_curve_def)
  moreover have "length ?ps = 100 + 1"
    by (simp add: length_Ribbon_points steps_def)
  moreover have "\<forall>i\<le>100. ?ps ! i =
        (cos (real i / 100 * (2 * pi) * turns) *
           ((1 - real i / 100) * (radiusBottom + 0.2) + real i / 100 * (radiusTop + 0.2)),
         (real i / 100 - 0.5) * height,
         sin (real i / 100 * (2 * pi) * turns) *
           ((1 - real i / 100) * (radiusBottom + 0.2) + real i / 100 * (radiusTop + 0.2)))"
  proof (intro allI impI)
    fix i :: nat
    assume "i \<le> 100"
    then have "i \<le> steps" by (simp add: steps_def)
    then have "?ps ! i = Ribbon_point radiusBottom radiusTop height turns i"
      by (rule nth_Ribbon_points)
    then show "?ps ! i =
        (cos (real i / 100 * (2 * pi) * turns) *
           ((1 - real i / 100) * (radiusBottom + 0.2) + real i / 100 * (radiusTop + 0.2)),
         (real i / 100 - 0.5) * height,
         sin (real i / 100 * (2 * pi) * turns) *
           ((1 - real i / 100) * (radiusBottom + 0.2) + real i / 100 * (radiusTop + 0.2)))"
      by (simp only: Ribbon_point_eq)
  qed
  moreover have "Ribbon_theta turns 0 = 0" by (simp add: th)
  moreover have "Ribbon_theta turns 100 = 2 * pi * turns"
    by (simp add: th)
  ultimately show ?thesis
    using th mono rise by blast
qed

theorem Ribbon_curve_points_witness:
  "\<exists>ps. Ribbon_curve 1.8 0.1 2.5 3 = Inr (CatmullRomCurve3 ps) \<and> length ps = 101 \<and>
     ps ! 0 = (2, - 1.25, 0) \<and> ps ! 100 = (0.3, 1.25, 0) \<and>
     Ribbon_theta 3 0 \<le> Ribbon_theta 3 1 \<and> Ribbon_theta 3 0 < Ribbon_theta 3 100"
proof -
  have c: "cos (6 * pi) = 1" and s: "sin (6 * pi) = 0"
    using cos_npi [of 6] sin_npi [of 6] by simp_all
  from Ribbon_curve_points [of "1.8" "0.1" "2.5" 3]
  obtain ps where ps: "Ribbon_curve 1.8 0.1 2.5 3 = Inr (CatmullRomCurve3 ps)"
    "length ps = 100 + 1"
    "\<forall>i\<le>100. ps ! i =
        (cos (real i / 100 * (2 * pi) * 3) *
           ((1 - real i / 100) * (1.8 + 0.2) + real i / 100 * (0.1 + 0.2)),
         (real i / 100 - 0.5) * 2.5,
         sin (real i / 100 * (2 * pi) * 3) *
           ((1 - real i / 100) * (1.8 + 0.2) + real i / 100 * (0.1 + 0.2)))"
    "\<forall>i j. (0::real) \<le> 3 \<longrightarrow> i \<le> j \<longrightarrow> Ribbon_theta 3 i \<le> Ribbon_theta 3 j"
    "(0::real) < 3 \<longrightarrow> Ribbon_theta 3 0 < Ribbon_theta 3 100"
    by blast
  from ps(3) have p0: "ps ! 0 = (2, - 1.25, 0)"
    by simp
  from ps(3) have "ps ! 100 =
        (cos (real 100 / 100 * (2 * pi) * 3) *
           ((1 - real 100 / 100) * (1.8 + 0.2) + real 100 / 100 * (0.1 + 0.2)),
         (real 100 / 100 - 0.5) * 2.5,
         sin (real 100 / 100 * (2 * pi) * 3) *
           ((1 - real 100 / 100) * (1.8 + 0.2) + real 100 / 100 * (0.1 + 0.2)))"
    by (metis order_refl)
  then have p100: "ps ! 100 = (0.3, 1.25, 0)"
    using c s by simp
  from ps(4) have m: "Ribbon_theta 3 0 \<le> Ribbon_theta 3 1"
    by simp
  from ps(5) have r: "Ribbon_theta 3 0 < Ribbon_theta 3 100"
    by simp
  from ps(1,2) p0 p100 m r show ?thesis by simp
qed

lemma TreeLayer_position_eq:
  "TreeLayer_position l i =
     (cos (2 * pi * real i / real_of_int (TreeLayer_count l)) * 1.3,
      - 0.8 + sin (2 * pi * real i / real_of_int (TreeLayer_count l) * 3) * 0.2,
      sin (2 * pi * real i / real_of_int (TreeLayer_count l)) * 1.3)"
proof -
  have a: "TreeLayer_angle l i = 2 * pi * real i / real_of_int (TreeLayer_count l)"
    by (simp add: TreeLayer_angle_def)
  show ?thesis
    unfolding TreeLayer_position_def Let_def a radius_def by (rule refl)
qed

text \<open>
  C6. The memoised list of ornaments has exactly \<open>count\<close> elements when
  \<open>count = 6 + layerIndex * 2\<close> is not negative. Element \<open>i\<close> sits at the angle
  \<open>2 * pi * i / count\<close>, with \<open>x = cos angle * 1.3\<close>, \<open>z = sin angle * 1.3\<close> and
  \<open>y = -0.8 + sin (angle * 3) * 0.2\<close>. A count of 0 gives the empty list.
\<close>

theorem TreeLayer_ornaments_ring:
  "length (TreeLayer_ornaments l rnd) = nat (TreeLayer_count l) \<and>
   TreeLayer_count l = 6 + l * 2 \<and>
   (\<forall>i < nat (TreeLayer_count l).
      key (TreeLayer_ornaments l rnd ! i) = i \<and>
      position_prop (TreeLayer_ornaments l rnd ! i) =
        (cos (2 * pi * real i / real_of_int (TreeLayer_count l)) * 1.3,
         - 0.8 + sin (2 * pi * real i / real_of_int (TreeLayer_count l) * 3) * 0.2,
         sin (2 * pi * real i / real_of_int (TreeLayer_count l)) * 1.3)) \<and>
   (TreeLayer_count l = 0 \<longrightarrow> TreeLayer_ornaments l rnd = [])"
proof -
  have "\<forall>i < nat (TreeLayer_count l).
      key (TreeLayer_ornaments l rnd ! i) = i \<and>
      position_prop (TreeLayer_ornaments l rnd ! i) =
        (cos (2 * pi * real i / real_of_int (TreeLayer_count l)) * 1.3,
         - 0.8 + sin (2 * pi * real i / real_of_int (TreeLayer_count l) * 3) * 0.2,
         sin (2 * pi * real i / real_of_int (TreeLayer_count l)) * 1.3)"
  proof (intro allI impI)
    fix i
    assume "i < nat (TreeLayer_count l)"
    then have "TreeLayer_ornaments l rnd ! i = TreeLayer_item l rnd i"
      by (rule nth_TreeLayer_ornaments)
    then show "key (TreeLayer_ornaments l rnd ! i) = i \<and>
      position_prop (TreeLayer_ornaments l rnd ! i) =
        (cos (2 * pi * real i / real_of_int (TreeLayer_count l)) * 1.3,
         - 0.8 + sin (2 * pi * real i / real_of_int (TreeLayer_count l) * 3) * 0.2,
         sin (2 * pi * real i / real_of_int (TreeLayer_count l)) * 1.3)"
      by (simp add: TreeLayer_item_def TreeLayer_position_eq)
  qed
  moreover have "TreeLayer_count l = 0 \<longrightarrow> TreeLayer_ornaments l rnd = []"
    by (simp add: TreeLayer_ornaments_eq)
  moreover have "TreeLayer_count l = 6 + l * 2"
    by (simp add: TreeLayer_count_def)
  ultimately show ?thesis
    by (simp add: length_TreeLayer_ornaments)
qed

theorem TreeLayer_ornaments_ring_witness:
  "length (TreeLayer_ornaments 1 (\<lambda>i. 0)) = 8 \<and>
   position_prop (TreeLayer_ornaments 1 (\<lambda>i. 0) ! 0) = (1.3, - 0.8, 0) \<and>
   position_prop (TreeLayer_ornaments 1 (\<lambda>i. 0) ! 4) = (- 1.3, - 0.8, 0) \<and>
   TreeLayer_ornaments (- 3) (\<lambda>i. 0) = []"
proof -
  have c1: "TreeLayer_count 1 = 8" and c3: "TreeLayer_count (- 3) = 0"
    by (simp_all add: TreeLayer_count_def)
  have s3: "sin (3 * pi) = 0"
    using sin_npi [of 3] by simp
  note r1 = TreeLayer_ornaments_ring [of 1 "\<lambda>i. 0", unfolded c1]
  note r3 = TreeLayer_ornaments_ring [of "- 3" "\<lambda>i. 0", unfolded c3]
  from r1 have len: "length (TreeLayer_ornaments 1 (\<lambda>i. 0)) = 8" by simp
  from r1 have p0: "position_prop (TreeLayer_ornaments 1 (\<lambda>i. 0) ! 0) = (1.3, - 0.8, 0)"
    by simp
  from r1 have "position_prop (TreeLayer_ornaments 1 (\<lambda>i. 0) ! 4) =
        (cos (2 * pi * real 4 / real_of_int 8) * 1.3,
         - 0.8 + sin (2 * pi * real 4 / real_of_int 8 * 3) * 0.2,
         sin (2 * pi * real 4 / real_of_int 8) * 1.3)"
    by simp
  then have p4: "position_prop (TreeLayer_ornaments 1 (\<lambda>i. 0) ! 4) = (- 1.3, - 0.8, 0)"
    using s3 by (simp add: mult.commute)
  from r3 have e: "TreeLayer_ornaments (- 3) (\<lambda>i. 0) = []" by simp
  from len p0 p4 e show ?thesis by simp
qed

text \<open>
  C1, as the spec states it, fails: the scale of an ornament is drawn from
  \<open>Math.random()\<close>, and the placement takes no seed. Two evaluations with the same
  \<open>layerIndex\<close> whose draws differ (0 in one, 1/2 in the other) give different scales,
  0.6 and 0.8, for the first ornament.
\<close>

theorem scale_jitter_not_seeded_counterexample:
  "TreeLayer_ornaments 0 (\<lambda>i. 0) \<noteq> TreeLayer_ornaments 0 (\<lambda>i. 1 / 2) \<and>
   scale_prop (TreeLayer_ornaments 0 (\<lambda>i. 0) ! 0) = 0.6 \<and>
   scale_prop (TreeLayer_ornaments 0 (\<lambda>i. 1 / 2) ! 0) = 0.8"
proof -
  have i: "0 < nat (TreeLayer_count 0)" by (simp add: TreeLayer_count_def)
  have a: "scale_prop (TreeLayer_ornaments 0 (\<lambda>i. 0) ! 0) = 0.6"
    by (simp add: nth_TreeLayer_ornaments [OF i] TreeLayer_item_def)
  have b: "scale_prop (TreeLayer_ornaments 0 (\<lambda>i. 1 / 2) ! 0) = 0.8"
    by (simp add: nth_TreeLayer_ornaments [OF i] TreeLayer_item_def)
  have "TreeLayer_ornaments 0 (\<lambda>i. 0) \<noteq> TreeLayer_ornaments 0 (\<lambda>i. 1 / 2)"
  proof
    assume "TreeLayer_ornaments 0 (\<lambda>i. 0) = TreeLayer_ornaments 0 (\<lambda>i. 1 / 2)"
    with a b show False by simp
  qed
  with a b show ?thesis by simp
qed

text \<open>
  C1, amended. The scale of ornament \<open>i\<close> is \<open>0.6 + r * 0.4\<close> for the result \<open>r\<close> of
  the call of \<open>Math.random()\<close> made in iteration \<open>i\<close>: the jitter \<open>r * 0.4\<close> is a
  function of the draw, not of the index and a seed, and for \<open>r\<close> in \<open>[0, 1)\<close> it is in
  \<open>[0, 0.4)\<close>. The position does not depend on the draws, and two evaluations with the
  same \<open>layerIndex\<close> whose draws are equal give the same list.
\<close>

theorem scale_jitter_from_random:
  assumes "i < nat (TreeLayer_count l)"
    and "0 \<le> rnd i" and "rnd i < 1"
  shows "scale_prop (TreeLayer_ornaments l rnd ! i) = 0.6 + rnd i * 0.4 \<and>
         0 \<le> rnd i * 0.4 \<and> rnd i * 0.4 < 0.4 \<and>
         position_prop (TreeLayer_ornaments l rnd ! i) =
           position_prop (TreeLayer_ornaments l rnd' ! i) \<and>
         ((\<forall>j < nat (TreeLayer_count l). rnd j = rnd' j) \<longrightarrow>
            TreeLayer_ornaments l rnd = TreeLayer_ornaments l rnd')"
proof -
  have same: "TreeLayer_ornaments l rnd = TreeLayer_ornaments l rnd'"
    if "\<forall>j < nat (TreeLayer_count l). rnd j = rnd' j"
  proof -
    have "map (TreeLayer_item l rnd) [0..<nat (TreeLayer_count l)] =
        map (TreeLayer_item l rnd') [0..<nat (TreeLayer_count l)]"
      using that by (intro map_cong refl) (simp add: TreeLayer_item_def)
    then show ?thesis by (simp only: TreeLayer_ornaments_eq)
  qed
  from assms have "scale_prop (TreeLayer_ornaments l rnd ! i) = 0.6 + rnd i * 0.4 \<and>
         0 \<le> rnd i * 0.4 \<and> rnd i * 0.4 < 0.4 \<and>
         position_prop (TreeLayer_ornaments l rnd ! i) =
           position_prop (TreeLayer_ornaments l rnd' ! i)"
    by (simp add: nth_TreeLayer_ornaments TreeLayer_item_def)
  with same show ?thesis by blast
qed

theorem scale_jitter_from_random_witness:
  "scale_prop (TreeLayer_ornaments 0 (\<lambda>i. 1 / 2) ! 5) = 0.8 \<and>
   position_prop (TreeLayer_ornaments 0 (\<lambda>i. 1 / 2) ! 5) =
     position_prop (TreeLayer_ornaments 0 (\<lambda>i. if i < 6 then 1 / 2 else 0) ! 5) \<and>
   TreeLayer_ornaments 0 (\<lambda>i. 1 / 2) =
     TreeLayer_ornaments 0 (\<lambda>i. if i < 6 then 1 / 2 else 0)"
proof -
  have i: "5 < nat (TreeLayer_count 0)" by (simp add: TreeLayer_count_def)
  have lo: "(0::real) \<le> (\<lambda>i::nat. 1 / 2) 5" and hi: "(\<lambda>i::nat. 1 / 2) 5 < (1::real)"
    by simp_all
  have agree: "\<forall>j < nat (TreeLayer_count 0).
      (\<lambda>i::nat. 1 / 2 :: real) j = (\<lambda>i. if i < 6 then 1 / 2 else 0) j"
    by (simp add: TreeLayer_count_def)
  note r = scale_jitter_from_random [OF i lo hi, of "\<lambda>i. if i < 6 then 1 / 2 else 0"]
  from r have a: "scale_prop (TreeLayer_ornaments 0 (\<lambda>i. 1 / 2) ! 5) = 0.8"
    by simp
  from r have b: "position_prop (TreeLayer_ornaments 0 (\<lambda>i. 1 / 2) ! 5) =
      position_prop (TreeLayer_ornaments 0 (\<lambda>i. if i < 6 then 1 / 2 else 0) ! 5)"
    by blast
  from r agree have c: "TreeLayer_ornaments 0 (\<lambda>i. 1 / 2) =
      TreeLayer_ornaments 0 (\<lambda>i. if i < 6 then 1 / 2 else 0)"
    by blast
  from a b c show ?thesis by (intro conjI)
qed

end
